theory Spec2Isabelle
  imports Complex_Main
begin

section \<open>Hypothesis-testing and quadrature cells of the notebook\<close>

text \<open>
  The notebook is a sequence of script cells. Each cell is embedded as a function of the
  variables it reads: the Z-score cell reads \<open>x0\<close>, \<open>mu\<close> and \<open>sigma\<close>, the t-statistic cell
  reads \<open>samples\<close> and \<open>mu\<close>, the p-value cells read the statistic. Floating-point numbers
  are embedded as reals (rounding is not modelled); the special values that IEEE
  arithmetic produces on a division by zero are kept, since NumPy returns them where
  Python's own \<open>float\<close> division raises.
\<close>

subsection \<open>The integrand \<open>conditional_function\<close>\<close>

text \<open>
  The five guarded returns of \<open>conditional_function\<close>, in source order, and the implicit
  \<open>return None\<close> of a Python function whose guards all fail.
\<close>

datatype branch = Exp_branch | Square_branch | Zero_branch | Sqrt_branch | Exp_neg_branch | Fall_through

definition conditional_branch :: "real \<Rightarrow> branch" where
  "conditional_branch x =
     (if x < 0 then Exp_branch
      else if x < 3 then Square_branch
      else if x = 3 then Zero_branch
      else if x > 3 then Sqrt_branch
      else if x \<ge> 5 then Exp_neg_branch
      else Fall_through)"

definition conditional_function :: "real \<Rightarrow> real option" where
  "conditional_function x =
     (if x < 0 then Some (exp x)
      else if x < 3 then Some (x\<^sup>2)
      else if x = 3 then Some 0
      else if x > 3 then Some (sqrt x)
      else if x \<ge> 5 then Some (exp (- x))
      else None)"

text \<open>The value returned on each branch; \<open>conditional_function\<close> is the composition.\<close>

definition branch_value :: "branch \<Rightarrow> real \<Rightarrow> real option" where
  "branch_value b x =
     (case b of
        Exp_branch \<Rightarrow> Some (exp x)
      | Square_branch \<Rightarrow> Some (x\<^sup>2)
      | Zero_branch \<Rightarrow> Some 0
      | Sqrt_branch \<Rightarrow> Some (sqrt x)
      | Exp_neg_branch \<Rightarrow> Some (exp (- x))
      | Fall_through \<Rightarrow> None)"

subsection \<open>The Z-score cell\<close>

text \<open>
  \<open>x0\<close>, \<open>mu\<close> and \<open>sigma\<close> are Python floats, so \<open>abs(x0 - mu) / sigma\<close> raises
  \<open>ZeroDivisionError\<close> when \<open>sigma\<close> is zero. The cell has no other failure.
\<close>

datatype py_error = ZeroDivisionError

definition Z_score :: "real \<Rightarrow> real \<Rightarrow> real \<Rightarrow> py_error + real" where
  "Z_score x0 mu sigma =
     (if sigma = 0 then Inl ZeroDivisionError else Inr (\<bar>x0 - mu\<bar> / sigma))"

text \<open>
  The statistic as the specification words it, and as the notebook's own formula
  \<open>Z = (x - mu) / sigma\<close> gives it: the signed quotient.
\<close>

definition evaluate_z_statistic_spec :: "real \<Rightarrow> real \<Rightarrow> real \<Rightarrow> real" where
  "evaluate_z_statistic_spec sample_mean mu sigma = (sample_mean - mu) / sigma"

subsection \<open>The normal distribution function\<close>

text \<open>
  \<open>stats.norm.cdf\<close> is SciPy's, not the notebook's. It is embedded as the function it
  computes, the standard normal distribution function, given by its Maclaurin series
  \<open>1/2 + (1 / sqrt (2 pi)) * (\<Sum>k. (-1)^k * x^(2k+1) / (2^k * k! * (2k+1)))\<close>, which converges
  for every real \<open>x\<close> and is the term-by-term integral of the density \<open>exp (- x\<^sup>2 / 2) / sqrt (2 pi)\<close>
  (\<open>norm_cdf_deriv\<close> below).
\<close>

definition norm_cdf_coeff :: "nat \<Rightarrow> real" where
  "norm_cdf_coeff k = (- 1) ^ k / (2 ^ k * fact k * real (2 * k + 1))"

definition norm_cdf_series :: "real \<Rightarrow> real" where
  "norm_cdf_series y = (\<Sum>k. norm_cdf_coeff k * y ^ k)"

definition norm_cdf :: "real \<Rightarrow> real" where
  "norm_cdf x = 1 / 2 + x * norm_cdf_series (x\<^sup>2) / sqrt (2 * pi)"

subsection \<open>The Z-test p-value cell\<close>

definition z_pvalue :: "real \<Rightarrow> real" where
  "z_pvalue Z = norm_cdf (- Z) + (1 - norm_cdf Z)"

text \<open>The two code cells in sequence: the statistic, then its p-value.\<close>

definition z_test :: "real \<Rightarrow> real \<Rightarrow> real \<Rightarrow> py_error + real \<times> real" where
  "z_test x0 mu sigma =
     (case Z_score x0 mu sigma of
        Inl e \<Rightarrow> Inl e
      | Inr Z \<Rightarrow> Inr (Z, z_pvalue Z))"

subsection \<open>NumPy scalars\<close>

text \<open>
  A \<open>float64\<close> is a finite number, an infinity or NaN. NumPy's arithmetic returns the
  special values (with a warning) where Python raises. The sign of zero is not modelled:
  every zero divisor of the t cell is a square root or a count, hence \<open>+0.0\<close>.
\<close>

datatype npfloat = Fin real | PInf | NInf | NaN

fun np_neg :: "npfloat \<Rightarrow> npfloat" where
  "np_neg (Fin a) = Fin (- a)"
| "np_neg PInf = NInf"
| "np_neg NInf = PInf"
| "np_neg NaN = NaN"

fun np_add :: "npfloat \<Rightarrow> npfloat \<Rightarrow> npfloat" where
  "np_add NaN _ = NaN"
| "np_add _ NaN = NaN"
| "np_add (Fin a) (Fin b) = Fin (a + b)"
| "np_add PInf NInf = NaN"
| "np_add NInf PInf = NaN"
| "np_add PInf _ = PInf"
| "np_add _ PInf = PInf"
| "np_add NInf _ = NInf"
| "np_add _ NInf = NInf"

definition np_sub :: "npfloat \<Rightarrow> npfloat \<Rightarrow> npfloat" where
  "np_sub a b = np_add a (np_neg b)"

fun np_mul :: "npfloat \<Rightarrow> npfloat \<Rightarrow> npfloat" where
  "np_mul NaN _ = NaN"
| "np_mul _ NaN = NaN"
| "np_mul (Fin a) (Fin b) = Fin (a * b)"
| "np_mul (Fin a) PInf = (if a = 0 then NaN else if 0 < a then PInf else NInf)"
| "np_mul (Fin a) NInf = (if a = 0 then NaN else if 0 < a then NInf else PInf)"
| "np_mul PInf (Fin b) = (if b = 0 then NaN else if 0 < b then PInf else NInf)"
| "np_mul NInf (Fin b) = (if b = 0 then NaN else if 0 < b then NInf else PInf)"
| "np_mul PInf PInf = PInf"
| "np_mul NInf NInf = PInf"
| "np_mul PInf NInf = NInf"
| "np_mul NInf PInf = NInf"

fun np_divide :: "npfloat \<Rightarrow> npfloat \<Rightarrow> npfloat" where
  "np_divide NaN _ = NaN"
| "np_divide _ NaN = NaN"
| "np_divide (Fin a) (Fin b) =
     (if b = 0 then (if a = 0 then NaN else if 0 < a then PInf else NInf) else Fin (a / b))"
| "np_divide (Fin a) _ = Fin 0"
| "np_divide PInf (Fin b) = (if 0 \<le> b then PInf else NInf)"
| "np_divide NInf (Fin b) = (if 0 \<le> b then NInf else PInf)"
| "np_divide _ _ = NaN"

fun np_sqrt :: "npfloat \<Rightarrow> npfloat" where
  "np_sqrt (Fin a) = (if a < 0 then NaN else Fin (sqrt a))"
| "np_sqrt PInf = PInf"
| "np_sqrt NInf = NaN"
| "np_sqrt NaN = NaN"

text \<open>\<open>np.sum\<close>, \<open>np.mean\<close> and \<open>np.var\<close> of a one-dimensional array of finite numbers.\<close>

definition np_sum :: "npfloat list \<Rightarrow> npfloat" where
  "np_sum xs = foldl np_add (Fin 0) xs"

definition np_mean :: "real list \<Rightarrow> npfloat" where
  "np_mean xs = np_divide (np_sum (map Fin xs)) (Fin (real (length xs)))"

text \<open>
  \<open>np.var(a, ddof)\<close> subtracts the mean, squares, sums and divides by
  \<open>max (len(a) - ddof, 0)\<close>.
\<close>

definition np_var :: "real list \<Rightarrow> int \<Rightarrow> npfloat" where
  "np_var xs ddof =
     (let arrmean = np_mean xs;
          x = map (\<lambda>a. np_sub (Fin a) arrmean) xs;
          x2 = map (\<lambda>d. np_mul d d) x;
          rcount = max (int (length xs) - ddof) 0
      in np_divide (np_sum x2) (Fin (real_of_int rcount)))"

subsection \<open>Student's t distribution function\<close>

text \<open>
  \<open>stats.t.cdf\<close> is SciPy's as well. For a positive whole number of degrees of freedom the
  distribution function has a closed form (Abramowitz and Stegun 26.7.3 and 26.7.4): with
  \<open>\<theta> = arctan (t / sqrt df)\<close>, so that \<open>sin \<theta> = t / sqrt (df + t\<^sup>2)\<close> and
  \<open>cos\<^sup>2 \<theta> = df / (df + t\<^sup>2)\<close>, it is
  \<open>1/2 + (sin \<theta> / 2) * (1 + 1/2 cos\<^sup>2 \<theta> + (1*3)/(2*4) cos\<^sup>4 \<theta> + ...)\<close> with \<open>df / 2\<close> terms
  for even \<open>df\<close>, and
  \<open>1/2 + (\<theta> + sin \<theta> cos \<theta> * (1 + 2/3 cos\<^sup>2 \<theta> + (2*4)/(3*5) cos\<^sup>4 \<theta> + ...)) / pi\<close> with
  \<open>(df - 1) / 2\<close> terms for odd \<open>df\<close>.
\<close>

fun even_df_coeff :: "nat \<Rightarrow> real" where
  "even_df_coeff 0 = 1"
| "even_df_coeff (Suc j) = even_df_coeff j * real (2 * j + 1) / real (2 * j + 2)"

fun odd_df_coeff :: "nat \<Rightarrow> real" where
  "odd_df_coeff 0 = 1"
| "odd_df_coeff (Suc j) = odd_df_coeff j * real (2 * j + 2) / real (2 * j + 3)"

definition student_t_cdf :: "nat \<Rightarrow> real \<Rightarrow> real" where
  "student_t_cdf df t =
     (let u = real df + t\<^sup>2;
          sin_theta = t / sqrt u;
          cos2_theta = real df / u
      in if even df
         then 1 / 2 + sin_theta / 2 * (\<Sum>j<df div 2. even_df_coeff j * cos2_theta ^ j)
         else 1 / 2 + (arctan (t / sqrt (real df))
                       + sin_theta * sqrt cos2_theta
                         * (\<Sum>j<df div 2. odd_df_coeff j * cos2_theta ^ j)) / pi)"

text \<open>
  The call \<open>stats.t.cdf(x, df)\<close> on a NumPy scalar: NaN for NaN and for a number of
  degrees of freedom that is not positive, the limits 0 and 1 at the infinities.
\<close>

definition t_cdf :: "npfloat \<Rightarrow> int \<Rightarrow> npfloat" where
  "t_cdf x df =
     (if df \<le> 0 then NaN
      else case x of
             Fin t \<Rightarrow> Fin (student_t_cdf (nat df) t)
           | PInf \<Rightarrow> Fin 1
           | NInf \<Rightarrow> Fin 0
           | NaN \<Rightarrow> NaN)"

subsection \<open>The t-statistic cell and its p-value cell\<close>

text \<open>
  \<open>samples\<close> is an array of finite numbers and \<open>mu\<close> a Python float. The array the notebook
  assigns, and the variables of the cell in the order it assigns them.
\<close>

definition samples_example :: "real list" where
  "samples_example = [1035, 1050, 1020, 1055, 1046]"

definition sample_sigma :: "real list \<Rightarrow> npfloat" where
  "sample_sigma samples = np_sqrt (np_var samples 1)"

definition sample_mean :: "real list \<Rightarrow> npfloat" where
  "sample_mean samples = np_mean samples"

definition T_statistic :: "real list \<Rightarrow> real \<Rightarrow> npfloat" where
  "T_statistic samples mu =
     (let sigma = sample_sigma samples;
          n = length samples
      in np_divide (np_sub (sample_mean samples) (Fin mu))
                   (np_divide sigma (np_sqrt (Fin (real n)))))"

text \<open>The second argument of both \<open>stats.t.cdf\<close> calls is \<open>n - 1\<close>.\<close>

definition t_pvalue :: "npfloat \<Rightarrow> nat \<Rightarrow> npfloat" where
  "t_pvalue T n = np_add (t_cdf T (int n - 1)) (np_sub (Fin 1) (t_cdf (np_neg T) (int n - 1)))"

definition t_test :: "real list \<Rightarrow> real \<Rightarrow> npfloat \<times> npfloat" where
  "t_test samples mu =
     (let T = T_statistic samples mu in (T, t_pvalue T (length samples)))"

subsection \<open>The t statistic as specified\<close>

text \<open>
  The sample mean, and the sample standard deviation with denominator \<open>n - 1\<close>, written as
  the specification writes them: sums over the indices of the sample.
\<close>

definition spec_mean :: "real list \<Rightarrow> real" where
  "spec_mean xs = (\<Sum>i<length xs. xs ! i) / real (length xs)"

definition spec_sd :: "real list \<Rightarrow> real" where
  "spec_sd xs = sqrt ((\<Sum>i<length xs. (xs ! i - spec_mean xs)\<^sup>2) / (real (length xs) - 1))"

section \<open>Properties\<close>

subsection \<open>The normal distribution function\<close>

text \<open>
  The series converges everywhere, its sum is odd about \<open>1/2\<close>, and its derivative is the
  standard normal density, so \<open>norm_cdf\<close> is strictly increasing.
\<close>

lemma norm_cdf_coeff_summable: "summable (\<lambda>k. norm_cdf_coeff k * y ^ k)"
proof (rule summable_comparison_test')
  show "summable (\<lambda>k. inverse (fact k) * \<bar>y\<bar> ^ k)"
    by (rule summable_exp)
  fix k :: nat
  assume "0 \<le> k"
  have "norm (norm_cdf_coeff k * y ^ k) = \<bar>y\<bar> ^ k / (2 ^ k * fact k * real (2 * k + 1))"
    by (simp add: norm_cdf_coeff_def abs_mult power_abs)
  also have "\<dots> \<le> \<bar>y\<bar> ^ k / fact k"
  proof (rule divide_left_mono)
    have "1 * fact k * 1 \<le> 2 ^ k * fact k * real (2 * k + 1)"
      by (intro mult_mono) simp_all
    then show "fact k \<le> 2 ^ k * fact k * real (2 * k + 1)" by simp
  qed simp_all
  finally show "norm (norm_cdf_coeff k * y ^ k) \<le> inverse (fact k) * \<bar>y\<bar> ^ k"
    by (simp add: field_simps)
qed

lemma norm_cdf_zero: "norm_cdf 0 = 1 / 2"
  by (simp add: norm_cdf_def)

lemma norm_cdf_minus: "norm_cdf (- x) = 1 - norm_cdf x"
  by (simp add: norm_cdf_def)

lemma diffs_norm_cdf_coeff:
  "norm_cdf_coeff k + 2 * (real k * norm_cdf_coeff k) = (- (1 / 2)) ^ k / fact k"
proof -
  have "norm_cdf_coeff k + 2 * (real k * norm_cdf_coeff k) = real (2 * k + 1) * norm_cdf_coeff k"
    by (simp add: algebra_simps)
  also have "\<dots> = (- 1) ^ k / (2 ^ k * fact k)"
    by (simp add: norm_cdf_coeff_def)
  also have "\<dots> = (- (1 / 2)) ^ k / fact k"
    by (simp add: power_minus [of "1/2::real"] field_simps)
  finally show ?thesis .
qed

lemma norm_cdf_series_deriv:
  "DERIV norm_cdf_series y :> (\<Sum>k. diffs norm_cdf_coeff k * y ^ k)"
  unfolding norm_cdf_series_def
  by (rule termdiffs_strong_converges_everywhere) (rule norm_cdf_coeff_summable)


lemma norm_cdf_series_ode:
  "norm_cdf_series y + 2 * y * (\<Sum>k. diffs norm_cdf_coeff k * y ^ k) = exp (- y / 2)"
proof -
  let ?c = norm_cdf_coeff
  have g: "(\<lambda>k. ?c k * y ^ k) sums norm_cdf_series y"
    unfolding norm_cdf_series_def by (rule summable_sums) (rule norm_cdf_coeff_summable)
  have "summable (\<lambda>k. diffs ?c k * y ^ k)"
    by (rule termdiff_converges_all) (rule norm_cdf_coeff_summable)
  then have "(\<lambda>k. diffs ?c k * y ^ k) sums (\<Sum>k. diffs ?c k * y ^ k)"
    by (rule summable_sums)
  then have "(\<lambda>k. y * (diffs ?c k * y ^ k)) sums (y * (\<Sum>k. diffs ?c k * y ^ k))"
    by (rule sums_mult)
  moreover have "(\<lambda>k. y * (diffs ?c k * y ^ k)) = (\<lambda>k. real (Suc k) * ?c (Suc k) * y ^ Suc k)"
    by (simp add: diffs_def fun_eq_iff)
  ultimately have "(\<lambda>k. real (Suc k) * ?c (Suc k) * y ^ Suc k) sums (y * (\<Sum>k. diffs ?c k * y ^ k))"
    by simp
  then have "(\<lambda>k. real k * ?c k * y ^ k) sums (y * (\<Sum>k. diffs ?c k * y ^ k))"
    using sums_Suc_iff [of "\<lambda>k. real k * ?c k * y ^ k" "y * (\<Sum>k. diffs ?c k * y ^ k)"] by simp
  then have "(\<lambda>k. 2 * (real k * ?c k * y ^ k)) sums (2 * (y * (\<Sum>k. diffs ?c k * y ^ k)))"
    by (rule sums_mult)
  with g have "(\<lambda>k. ?c k * y ^ k + 2 * (real k * ?c k * y ^ k))
                 sums (norm_cdf_series y + 2 * (y * (\<Sum>k. diffs ?c k * y ^ k)))"
    by (rule sums_add)
  moreover have "?c k * y ^ k + 2 * (real k * ?c k * y ^ k) = (- y / 2) ^ k /\<^sub>R fact k" for k
  proof -
    have "?c k * y ^ k + 2 * (real k * ?c k * y ^ k) = (?c k + 2 * (real k * ?c k)) * y ^ k"
      by (simp add: algebra_simps)
    also have "\<dots> = (- (1 / 2)) ^ k / fact k * y ^ k"
      by (simp only: diffs_norm_cdf_coeff)
    also have "\<dots> = ((- (1 / 2)) ^ k * y ^ k) / fact k"
      by simp
    also have "(- (1 / 2)) ^ k * y ^ k = (- (1 / 2) * y) ^ k"
      by (simp only: power_mult_distrib)
    also have "- (1 / 2) * y = - y / 2"
      by simp
    finally have "?c k * y ^ k + 2 * (real k * ?c k * y ^ k) = (- y / 2) ^ k / fact k" .
    then show ?thesis by (simp only: real_scaleR_def divide_inverse mult.commute)
  qed
  ultimately have "(\<lambda>k. (- y / 2) ^ k /\<^sub>R fact k)
                 sums (norm_cdf_series y + 2 * (y * (\<Sum>k. diffs ?c k * y ^ k)))"
    by simp
  then have "norm_cdf_series y + 2 * (y * (\<Sum>k. diffs ?c k * y ^ k)) = exp (- y / 2)"
    by (rule sums_unique2) (rule exp_converges)
  then show ?thesis by (simp only: mult.assoc)
qed

lemma norm_cdf_deriv: "DERIV norm_cdf x :> exp (- x\<^sup>2 / 2) / sqrt (2 * pi)"
proof -
  let ?g' = "\<lambda>y. \<Sum>k. diffs norm_cdf_coeff k * y ^ k"
  have "DERIV (\<lambda>x. norm_cdf_series (x\<^sup>2)) x :> ?g' (x\<^sup>2) * (2 * x)"
    by (rule DERIV_chain2 [OF norm_cdf_series_deriv]) (auto intro!: derivative_eq_intros)
  then have "DERIV (\<lambda>x. x * norm_cdf_series (x\<^sup>2)) x
               :> 1 * norm_cdf_series (x\<^sup>2) + ?g' (x\<^sup>2) * (2 * x) * x"
    by (rule DERIV_mult [OF DERIV_ident])
  moreover have "1 * norm_cdf_series (x\<^sup>2) + ?g' (x\<^sup>2) * (2 * x) * x = exp (- x\<^sup>2 / 2)"
  proof -
    have "?g' (x\<^sup>2) * (2 * x) * x = 2 * x\<^sup>2 * ?g' (x\<^sup>2)"
      by (simp only: power2_eq_square mult.assoc mult.commute mult.left_commute)
    then show ?thesis
      using norm_cdf_series_ode [of "x\<^sup>2"] by (simp only: mult_1)
  qed
  ultimately have "DERIV (\<lambda>x. x * norm_cdf_series (x\<^sup>2)) x :> exp (- x\<^sup>2 / 2)"
    by simp
  then have "DERIV (\<lambda>x. x * norm_cdf_series (x\<^sup>2) / sqrt (2 * pi)) x
               :> exp (- x\<^sup>2 / 2) / sqrt (2 * pi)"
    by (rule DERIV_cdivide)
  then have "DERIV (\<lambda>x. 1 / 2 + x * norm_cdf_series (x\<^sup>2) / sqrt (2 * pi)) x
               :> 0 + exp (- x\<^sup>2 / 2) / sqrt (2 * pi)"
    by (rule DERIV_add [OF DERIV_const])
  then show ?thesis
    unfolding norm_cdf_def [abs_def] by (simp only: add_0)
qed

lemma norm_cdf_strict_mono:
  assumes "x < y"
  shows "norm_cdf x < norm_cdf y"
using assms
proof (rule DERIV_pos_imp_increasing)
  fix z
  assume "x \<le> z" "z \<le> y"
  have "DERIV norm_cdf z :> exp (- z\<^sup>2 / 2) / sqrt (2 * pi)" by (rule norm_cdf_deriv)
  moreover have "0 < exp (- z\<^sup>2 / 2) / sqrt (2 * pi)" by simp
  ultimately show "\<exists>d. DERIV norm_cdf z :> d \<and> 0 < d" by blast
qed

lemma norm_cdf_gt_half: "0 < x \<Longrightarrow> 1 / 2 < norm_cdf x"
  using norm_cdf_strict_mono [of 0 x] by (simp add: norm_cdf_zero)

subsection \<open>NumPy reductions on finite samples\<close>

text \<open>
  On a sample of two or more finite numbers the reductions return finite numbers, the
  ones the specification names; on a shorter sample the variance is \<open>0 / 0\<close>.
\<close>

lemma foldl_np_add_Fin: "foldl np_add (Fin a) (map Fin ys) = Fin (a + sum_list ys)"
  by (induction ys arbitrary: a) (simp_all add: add.assoc)

lemma np_sum_Fin: "np_sum (map Fin ys) = Fin (sum_list ys)"
  by (simp add: np_sum_def foldl_np_add_Fin)

lemma sum_list_nth: "sum_list xs = (\<Sum>i<length xs. xs ! i)" for xs :: "real list"
  by (simp add: sum_list_sum_nth atLeast0LessThan)

lemma sum_list_map_nth: "sum_list (map f xs) = (\<Sum>i<length xs. f (xs ! i))" for f :: "real \<Rightarrow> real"
  using sum_list_nth [of "map f xs"] by simp

lemma np_mean_empty: "np_mean [] = NaN"
  by (simp add: np_mean_def np_sum_def)

lemma np_mean_Fin: "xs \<noteq> [] \<Longrightarrow> np_mean xs = Fin (spec_mean xs)"
  by (simp add: np_mean_def np_sum_Fin spec_mean_def sum_list_nth)

lemma np_var_Fin:
  assumes "2 \<le> length xs"
  shows "np_var xs 1 = Fin ((\<Sum>i<length xs. (xs ! i - spec_mean xs)\<^sup>2) / (real (length xs) - 1))"
proof -
  from assms have ne: "xs \<noteq> []" by auto
  have "map (\<lambda>d. np_mul d d) (map (\<lambda>a. np_sub (Fin a) (Fin (spec_mean xs))) xs)
          = map Fin (map (\<lambda>a. (a - spec_mean xs)\<^sup>2) xs)"
    by (simp add: np_sub_def power2_eq_square)
  then have "np_sum (map (\<lambda>d. np_mul d d) (map (\<lambda>a. np_sub (Fin a) (Fin (spec_mean xs))) xs))
          = Fin (\<Sum>i<length xs. (xs ! i - spec_mean xs)\<^sup>2)"
    by (simp only: np_sum_Fin sum_list_map_nth)
  moreover have "max (int (length xs) - 1) 0 = int (length xs) - 1"
    using assms by simp
  moreover have "real_of_int (int (length xs) - 1) = real (length xs) - 1"
    by simp
  moreover have "real (length xs) - 1 \<noteq> 0"
    using assms by simp
  ultimately show ?thesis
    by (simp add: np_var_def Let_def np_mean_Fin [OF ne])
qed

lemma np_var_small: "length xs \<le> 1 \<Longrightarrow> np_var xs 1 = NaN"
proof (cases xs)
  case Nil
  then show ?thesis by (simp add: np_var_def np_sum_def)
next
  case (Cons a ys)
  assume "length xs \<le> 1"
  with Cons have "xs = [a]" by simp
  then show ?thesis
    by (simp add: np_var_def np_mean_def np_sum_def np_sub_def)
qed

lemma sample_sigma_Fin: "2 \<le> length xs \<Longrightarrow> sample_sigma xs = Fin (spec_sd xs)"
proof -
  assume n: "2 \<le> length xs"
  have "0 \<le> (\<Sum>i<length xs. (xs ! i - spec_mean xs)\<^sup>2) / (real (length xs) - 1)"
    using n by (intro divide_nonneg_nonneg sum_nonneg) simp_all
  then show ?thesis
    by (simp add: sample_sigma_def np_var_Fin [OF n] spec_sd_def)
qed

lemma T_statistic_small: "length xs \<le> 1 \<Longrightarrow> T_statistic xs mu = NaN"
  by (cases "np_sub (sample_mean xs) (Fin mu)")
     (simp_all add: T_statistic_def sample_sigma_def np_var_small)

lemma T_statistic_divide:
  assumes "2 \<le> length xs"
  shows "T_statistic xs mu =
           np_divide (Fin (spec_mean xs - mu)) (Fin (spec_sd xs / sqrt (real (length xs))))"
proof -
  from assms have ne: "xs \<noteq> []" by auto
  have m: "sample_mean xs = Fin (spec_mean xs)"
    by (simp add: sample_mean_def np_mean_Fin [OF ne])
  have "real (length xs) \<noteq> 0"
    using ne by simp
  then have r: "np_divide (Fin (spec_sd xs)) (np_sqrt (Fin (real (length xs))))
          = Fin (spec_sd xs / sqrt (real (length xs)))"
    by simp
  show ?thesis
    unfolding T_statistic_def Let_def sample_sigma_Fin [OF assms] m r
    by (simp add: np_sub_def)
qed

subsection \<open>Student's t distribution function\<close>

lemma student_t_cdf_zero: "student_t_cdf df 0 = 1 / 2"
  by (simp add: student_t_cdf_def)

lemma student_t_cdf_minus: "student_t_cdf df (- t) = 1 - student_t_cdf df t"
proof (cases "even df")
  case True
  then show ?thesis by (simp add: student_t_cdf_def Let_def)
next
  case False
  let ?u = "real df + t\<^sup>2"
  let ?S = "\<Sum>j<df div 2. odd_df_coeff j * (real df / ?u) ^ j"
  let ?A = "arctan (t / sqrt (real df)) + t / sqrt ?u * sqrt (real df / ?u) * ?S"
  have "student_t_cdf df (- t) = 1 / 2 + (- ?A) / pi"
    using False by (simp add: student_t_cdf_def Let_def arctan_minus)
  also have "\<dots> = 1 - (1 / 2 + ?A / pi)"
    by (simp add: field_simps)
  also have "1 / 2 + ?A / pi = student_t_cdf df t"
    using False by (simp add: student_t_cdf_def Let_def)
  finally show ?thesis .
qed

lemma student_t_cdf_1: "student_t_cdf 1 t = 1 / 2 + arctan t / pi"
  by (simp add: student_t_cdf_def)

lemma t_pvalue_Fin:
  "2 \<le> n \<Longrightarrow> t_pvalue (Fin T) n = Fin (2 * student_t_cdf (n - 1) T)"
  by (simp add: t_pvalue_def t_cdf_def np_sub_def student_t_cdf_minus nat_diff_distrib')

lemma student_t_cdf_Suc_0: "student_t_cdf (Suc 0) t = 1 / 2 + arctan t / pi"
  using student_t_cdf_1 [of t] by simp

lemma student_t_cdf_4:
  "student_t_cdf 4 t = 1 / 2 + t * (t\<^sup>2 + 6) / (2 * (t\<^sup>2 + 4) * sqrt (t\<^sup>2 + 4))"
proof -
  let ?u = "4 + t\<^sup>2"
  have u: "0 < ?u" by (rule add_pos_nonneg) simp_all
  have "(\<Sum>j<(2::nat). even_df_coeff j * (4 / ?u) ^ j) = 1 + 2 / ?u"
    by (simp add: numeral_2_eq_2)
  then have "student_t_cdf 4 t = 1 / 2 + t / sqrt ?u / 2 * (1 + 2 / ?u)"
    by (simp add: student_t_cdf_def Let_def)
  also have "1 + 2 / ?u = (t\<^sup>2 + 6) / ?u"
    using u by (simp add: field_simps)
  also have "t / sqrt ?u / 2 * ((t\<^sup>2 + 6) / ?u) = t * (t\<^sup>2 + 6) / (2 * ?u * sqrt ?u)"
    by simp
  finally show ?thesis by (simp add: add.commute)
qed

text \<open>
  The closed forms for one and for four degrees of freedom have the densities of
  Student's t distribution as derivatives, \<open>1 / (pi (1 + t\<^sup>2))\<close> and
  \<open>3/8 (1 + t\<^sup>2/4) powr (-5/2) = 12 / ((t\<^sup>2 + 4)\<^sup>2 sqrt (t\<^sup>2 + 4))\<close>, and the value \<open>1/2\<close> at 0.
\<close>

lemma student_t_cdf_1_deriv: "DERIV (student_t_cdf 1) t :> 1 / (pi * (1 + t\<^sup>2))"
proof -
  have "DERIV (\<lambda>t. arctan t / pi) t :> inverse (1 + t\<^sup>2) / pi"
    by (rule DERIV_cdivide) (rule DERIV_arctan)
  then have "DERIV (\<lambda>t. 1 / 2 + arctan t / pi) t :> 0 + inverse (1 + t\<^sup>2) / pi"
    by (rule DERIV_add [OF DERIV_const])
  moreover have "0 + inverse (1 + t\<^sup>2) / pi = 1 / (pi * (1 + t\<^sup>2))"
    by (simp add: divide_inverse mult.commute)
  ultimately show ?thesis
    by (simp only: student_t_cdf_1 [abs_def])
qed

lemma student_t_cdf_4_deriv_aux:
  fixes s t :: real
  assumes s: "0 < s" and ss: "s * s = t\<^sup>2 + 4"
  shows "((t\<^sup>2 + 6 + 2 * t * t) * ((2 * t\<^sup>2 + 8) * s) -
          t * (t\<^sup>2 + 6) * (4 * t * s + inverse s * t * (2 * t\<^sup>2 + 8))) /
         ((2 * t\<^sup>2 + 8) * s * ((2 * t\<^sup>2 + 8) * s)) =
         12 / ((t\<^sup>2 + 4)\<^sup>2 * s)"
proof -
  have "2 * t\<^sup>2 + 8 = 2 * (s * s)" using ss by simp
  then have "inverse s * t * (2 * t\<^sup>2 + 8) = inverse s * t * (2 * (s * s))" by simp
  also have "\<dots> = 2 * t * s" using s by (simp add: field_simps)
  finally have inv: "inverse s * t * (2 * t\<^sup>2 + 8) = 2 * t * s" .
  have num: "(t\<^sup>2 + 6 + 2 * t * t) * ((2 * t\<^sup>2 + 8) * s) -
          t * (t\<^sup>2 + 6) * (4 * t * s + 2 * t * s) = 48 * s"
    by (simp add: power2_eq_square algebra_simps)
  have "(2 * t\<^sup>2 + 8) * s * ((2 * t\<^sup>2 + 8) * s) = 4 * ((t\<^sup>2 + 4) * (t\<^sup>2 + 4)) * (s * s)"
    by (simp add: algebra_simps)
  then have den: "(2 * t\<^sup>2 + 8) * s * ((2 * t\<^sup>2 + 8) * s) = 4 * (t\<^sup>2 + 4)\<^sup>2 * (s * s)"
    by (simp only: power2_eq_square)
  have "0 < t\<^sup>2 + 4" by (rule add_nonneg_pos) simp_all
  then have u: "0 < (t\<^sup>2 + 4)\<^sup>2" by simp
  have "48 * s / (4 * (t\<^sup>2 + 4)\<^sup>2 * (s * s)) = 12 / ((t\<^sup>2 + 4)\<^sup>2 * s)"
    using s u by (simp add: field_simps)
  then show ?thesis
    by (simp only: inv num den)
qed

lemma student_t_cdf_4_deriv:
  "DERIV (student_t_cdf 4) t :> 12 / ((t\<^sup>2 + 4)\<^sup>2 * sqrt (t\<^sup>2 + 4))"
proof -
  let ?u = "t\<^sup>2 + 4"
  let ?s = "sqrt ?u"
  have u: "0 < ?u" by (rule add_nonneg_pos) simp_all
  then have su: "0 < ?s" by simp
  have sq: "?s * ?s = ?u" using u by simp
  have "DERIV (\<lambda>t. 1 / 2 + t * (t\<^sup>2 + 6) / (2 * (t\<^sup>2 + 4) * sqrt (t\<^sup>2 + 4))) t
          :> ((t\<^sup>2 + 6 + 2 * t * t) * ((2 * t\<^sup>2 + 8) * ?s) -
          t * (t\<^sup>2 + 6) * (4 * t * ?s + inverse ?s * t * (2 * t\<^sup>2 + 8))) /
         ((2 * t\<^sup>2 + 8) * ?s * ((2 * t\<^sup>2 + 8) * ?s))"
    using u su by (auto intro!: derivative_eq_intros)
  then have "DERIV (\<lambda>t. 1 / 2 + t * (t\<^sup>2 + 6) / (2 * (t\<^sup>2 + 4) * sqrt (t\<^sup>2 + 4))) t
          :> 12 / (?u\<^sup>2 * ?s)"
    by (simp only: student_t_cdf_4_deriv_aux [OF su sq])
  then show ?thesis
    by (simp only: student_t_cdf_4 [abs_def])
qed

lemma arctan_2_gt: "pi / 4 < arctan 2"
proof -
  have "arctan 1 < arctan 2" by (simp add: arctan_less_iff)
  then show ?thesis by (simp add: arctan_one)
qed

subsection \<open>The integrand\<close>

lemma conditional_function_by_branch:
  "conditional_function x = branch_value (conditional_branch x) x"
  by (simp add: conditional_function_def conditional_branch_def branch_value_def)

text \<open>
  Claim C10. In \<open>conditional_function\<close> the return guarded by \<open>x >= 5\<close> is never reached:
  for every real \<open>x\<close> one of the four earlier guards holds, so the function never evaluates
  \<open>exp (- x)\<close>, it never falls through either, and for every \<open>x \<ge> 5\<close> it returns \<open>sqrt x\<close>.
\<close>

theorem conditional_function_exp_neg_unreachable:
  "conditional_branch x \<noteq> Exp_neg_branch
   \<and> conditional_function x =
       Some (if x < 0 then exp x else if x < 3 then x\<^sup>2 else if x = 3 then 0 else sqrt x)
   \<and> (5 \<le> x \<longrightarrow> conditional_function x = Some (sqrt x))"
  by (simp add: conditional_branch_def conditional_function_def)

theorem conditional_function_exp_neg_unreachable_witness:
  "(5::real) \<le> 9 \<and> conditional_branch 9 \<noteq> Exp_neg_branch \<and> conditional_function 9 = Some 3"
proof -
  have "sqrt 9 = (3::real)" using real_sqrt_abs [of 3] by simp
  with conditional_function_exp_neg_unreachable [of 9] show ?thesis by simp
qed

subsection \<open>The Z statistic\<close>

text \<open>
  Claim C2. For every \<open>sample_mean\<close>, \<open>mu\<close> and \<open>sigma\<close> with \<open>sigma > 0\<close> the specified
  statistic is the signed quotient \<open>(sample_mean - mu) / sigma\<close>, negative when
  \<open>sample_mean < mu\<close>, whereas the Z-score cell computes \<open>abs(x0 - mu) / sigma\<close>, which is
  never negative; the two agree exactly when \<open>sample_mean \<ge> mu\<close>.
\<close>

theorem Z_score_abs_vs_signed:
  assumes "0 < sigma"
  shows "Z_score x0 mu sigma = Inr (\<bar>x0 - mu\<bar> / sigma)
       \<and> 0 \<le> \<bar>x0 - mu\<bar> / sigma
       \<and> (x0 < mu \<longrightarrow> evaluate_z_statistic_spec x0 mu sigma < 0)
       \<and> (Z_score x0 mu sigma = Inr (evaluate_z_statistic_spec x0 mu sigma) \<longleftrightarrow> mu \<le> x0)"
proof -
  have code: "Z_score x0 mu sigma = Inr (\<bar>x0 - mu\<bar> / sigma)"
    using assms by (simp add: Z_score_def)
  have sign: "x0 < mu \<longrightarrow> evaluate_z_statistic_spec x0 mu sigma < 0"
    using assms by (simp add: evaluate_z_statistic_spec_def divide_neg_pos)
  have "\<bar>x0 - mu\<bar> / sigma = (x0 - mu) / sigma \<longleftrightarrow> \<bar>x0 - mu\<bar> = x0 - mu"
    using assms by simp
  also have "\<dots> \<longleftrightarrow> mu \<le> x0" by linarith
  finally have "Z_score x0 mu sigma = Inr (evaluate_z_statistic_spec x0 mu sigma) \<longleftrightarrow> mu \<le> x0"
    using assms by (simp add: Z_score_def evaluate_z_statistic_spec_def)
  moreover have "0 \<le> \<bar>x0 - mu\<bar> / sigma"
    using assms by simp
  ultimately show ?thesis
    using code sign by blast
qed

theorem Z_score_abs_vs_signed_witness:
  "(0::real) < 3 \<and> Z_score 1045 1060 3 = Inr 5
   \<and> (1045::real) < 1060 \<and> evaluate_z_statistic_spec 1045 1060 3 < 0
   \<and> Z_score 1045 1060 3 \<noteq> Inr (evaluate_z_statistic_spec 1045 1060 3)
   \<and> Z_score 1075 1060 3 = Inr (evaluate_z_statistic_spec 1075 1060 3)"
  using Z_score_abs_vs_signed [of 3 1045 1060] Z_score_abs_vs_signed [of 3 1075 1060]
  by (simp add: evaluate_z_statistic_spec_def)

subsection \<open>The Z-test p-value\<close>

lemma z_test_pos:
  "0 < sigma \<Longrightarrow> z_test x0 mu sigma = Inr (\<bar>x0 - mu\<bar> / sigma, z_pvalue (\<bar>x0 - mu\<bar> / sigma))"
  by (simp add: z_test_def Z_score_def)

lemma z_pvalue_symmetric: "z_pvalue Z = 2 * (1 - norm_cdf Z)"
  by (simp add: z_pvalue_def norm_cdf_minus)

text \<open>
  Claim C3, as stated, fails: the cell's expression \<open>\<Phi>(-Z) + (1 - \<Phi>(Z))\<close> is not
  \<open>2 (1 - \<Phi>(|Z|))\<close> for every real \<open>Z\<close>. At \<open>Z = -1\<close> it is \<open>2 \<Phi>(1)\<close>, which exceeds 1.
\<close>

theorem z_pvalue_negative_counterexample:
  "z_pvalue (- 1) \<noteq> 2 * (1 - norm_cdf \<bar>- 1\<bar>)"
proof -
  have "z_pvalue (- 1) = 2 * norm_cdf 1"
    by (simp add: z_pvalue_def norm_cdf_minus)
  moreover have "1 / 2 < norm_cdf 1"
    by (rule norm_cdf_gt_half) simp
  ultimately show ?thesis by simp
qed

text \<open>
  Claim C3, amended. For every \<open>Z \<ge> 0\<close> the cell's expression \<open>\<Phi>(-Z) + (1 - \<Phi>(Z))\<close> equals
  \<open>2 (1 - \<Phi>(|Z|))\<close>, and so does the p-value of every statistic the Z-score cell produces
  for \<open>sigma > 0\<close>; for \<open>Z < 0\<close> the expression equals \<open>2 \<Phi>(|Z|)\<close> instead.
\<close>

theorem z_pvalue_two_sided:
  "(0 \<le> Z \<longrightarrow> z_pvalue Z = 2 * (1 - norm_cdf \<bar>Z\<bar>))
   \<and> (Z < 0 \<longrightarrow> z_pvalue Z = 2 * norm_cdf \<bar>Z\<bar>)
   \<and> (0 < sigma \<longrightarrow>
        z_test x0 mu sigma = Inr (\<bar>x0 - mu\<bar> / sigma, 2 * (1 - norm_cdf \<bar>\<bar>x0 - mu\<bar> / sigma\<bar>)))"
proof (intro conjI impI)
  assume "0 \<le> Z"
  then show "z_pvalue Z = 2 * (1 - norm_cdf \<bar>Z\<bar>)"
    by (simp add: z_pvalue_symmetric)
next
  assume "Z < 0"
  then have "\<bar>Z\<bar> = - Z" by simp
  then show "z_pvalue Z = 2 * norm_cdf \<bar>Z\<bar>"
    by (simp add: z_pvalue_symmetric norm_cdf_minus)
next
  assume s: "0 < sigma"
  then have "0 \<le> \<bar>x0 - mu\<bar> / sigma" by simp
  then have "\<bar>\<bar>x0 - mu\<bar> / sigma\<bar> = \<bar>x0 - mu\<bar> / sigma" by (rule abs_of_nonneg)
  then show "z_test x0 mu sigma = Inr (\<bar>x0 - mu\<bar> / sigma, 2 * (1 - norm_cdf \<bar>\<bar>x0 - mu\<bar> / sigma\<bar>))"
    by (simp only: z_test_pos [OF s] z_pvalue_symmetric)
qed

theorem z_pvalue_two_sided_witness:
  "(0::real) \<le> 5 \<and> z_pvalue 5 = 2 * (1 - norm_cdf \<bar>5\<bar>)
   \<and> (- 1::real) < 0 \<and> z_pvalue (- 1) = 2 * norm_cdf \<bar>- 1\<bar>
   \<and> (0::real) < 3 \<and> z_test 1045 1060 3 = Inr (5, 2 * (1 - norm_cdf 5))"
  using z_pvalue_two_sided [of 5 3 1045 1060] z_pvalue_two_sided [of "- 1" 3 1045 1060]
  by simp

subsection \<open>The t statistic\<close>

lemma t_test_small: "length samples \<le> 1 \<Longrightarrow> t_test samples mu = (NaN, NaN)"
  by (simp add: t_test_def T_statistic_small t_pvalue_def t_cdf_def np_sub_def)

lemma t_test_Fin:
  "2 \<le> length samples \<Longrightarrow> T_statistic samples mu = Fin T \<Longrightarrow>
   t_test samples mu =
     (Fin T, Fin (student_t_cdf (length samples - 1) T
                  + (1 - student_t_cdf (length samples - 1) (- T))))"
  by (simp add: t_test_def t_pvalue_def t_cdf_def np_sub_def nat_diff_distrib')

lemma spec_mean_two: "spec_mean [a, b] = (a + b) / 2"
  by (simp add: spec_mean_def)

lemma spec_sd_two: "spec_sd [a, b] = sqrt ((a - (a + b) / 2)\<^sup>2 + (b - (a + b) / 2)\<^sup>2)"
  by (simp add: spec_sd_def spec_mean_two)

text \<open>
  Claim C4. For every sample of size \<open>n \<ge> 2\<close> and every \<open>mu\<close> the t cell computes the sample
  mean, the sample standard deviation \<open>s\<close> with denominator \<open>n - 1\<close>, and the statistic as the
  NumPy quotient of \<open>mean - mu\<close> by \<open>s / sqrt n\<close>, which is the number
  \<open>T = (mean - mu) / (s / sqrt n)\<close> whenever \<open>s\<close> is not zero; the p-value cell then reads
  Student's t distribution function with \<open>n - 1\<close> degrees of freedom at \<open>T\<close> and \<open>- T\<close>.
\<close>

theorem t_cell_formulas:
  assumes "2 \<le> length samples"
  shows "sample_mean samples = Fin (spec_mean samples)
       \<and> sample_sigma samples = Fin (spec_sd samples)
       \<and> T_statistic samples mu =
           np_divide (Fin (spec_mean samples - mu))
                     (Fin (spec_sd samples / sqrt (real (length samples))))
       \<and> (spec_sd samples \<noteq> 0 \<longrightarrow>
            (let T = (spec_mean samples - mu) / (spec_sd samples / sqrt (real (length samples)))
             in t_test samples mu =
                  (Fin T, Fin (student_t_cdf (length samples - 1) T
                               + (1 - student_t_cdf (length samples - 1) (- T))))))"
proof (intro conjI impI)
  from assms have ne: "samples \<noteq> []" by auto
  show "sample_mean samples = Fin (spec_mean samples)"
    by (simp add: sample_mean_def np_mean_Fin [OF ne])
  show "sample_sigma samples = Fin (spec_sd samples)"
    by (rule sample_sigma_Fin [OF assms])
  show "T_statistic samples mu =
          np_divide (Fin (spec_mean samples - mu))
                    (Fin (spec_sd samples / sqrt (real (length samples))))"
    by (rule T_statistic_divide [OF assms])
  assume sd: "spec_sd samples \<noteq> 0"
  have "sqrt (real (length samples)) \<noteq> 0"
    using ne by simp
  with sd have "T_statistic samples mu =
      Fin ((spec_mean samples - mu) / (spec_sd samples / sqrt (real (length samples))))"
    by (simp add: T_statistic_divide [OF assms])
  then show "let T = (spec_mean samples - mu) / (spec_sd samples / sqrt (real (length samples)))
     in t_test samples mu =
          (Fin T, Fin (student_t_cdf (length samples - 1) T
                       + (1 - student_t_cdf (length samples - 1) (- T))))"
    unfolding Let_def by (rule t_test_Fin [OF assms])
qed

theorem t_cell_formulas_witness:
  "2 \<le> length [1061, 1063 :: real]
   \<and> sample_mean [1061, 1063] = Fin 1062
   \<and> sample_sigma [1061, 1063] = Fin (sqrt 2)
   \<and> spec_sd [1061, 1063] \<noteq> 0
   \<and> t_test [1061, 1063] 1060 = (Fin 2, Fin (student_t_cdf 1 2 + (1 - student_t_cdf 1 (- 2))))"
proof -
  have m: "spec_mean [1061, 1063] = 1062"
    by (simp add: spec_mean_two)
  have s: "spec_sd [1061, 1063] = sqrt 2"
    by (simp add: spec_sd_two)
  have "(1062 - 1060) / (sqrt 2 / sqrt (real (length [1061, 1063 :: real]))) = (2::real)"
    by simp
  then show ?thesis
    using t_cell_formulas [where samples = "[1061, 1063]" and mu = 1060] m s by (simp add: Let_def)
qed

subsection \<open>Invalid inputs\<close>

text \<open>
  Claim C6, as stated, fails: on a sample of size 1 or 0 the t cell returns NaN for the
  statistic and for the p-value instead of failing, and for a negative \<open>sigma\<close> the Z cells
  return a statistic and a p-value.
\<close>

theorem no_input_validation_counterexample:
  "t_test [1035] 1060 = (NaN, NaN) \<and> t_test [] 1060 = (NaN, NaN)
   \<and> z_test 1045 1060 (- 3) = Inr (- 5, z_pvalue (- 5))"
  by (simp add: t_test_small z_test_def Z_score_def)

text \<open>
  Claim C6, amended. The cells validate nothing and know no \<open>InvalidInput\<close> error. On
  every sample of size 0 or 1 the t cell returns NaN as statistic and as p-value, without
  failing. The Z cell fails for \<open>sigma = 0\<close> only, with Python's \<open>ZeroDivisionError\<close>, and
  then no p-value is computed; for every \<open>sigma < 0\<close> it returns the statistic
  \<open>abs(x0 - mu) / sigma \<le> 0\<close> and its p-value.
\<close>

theorem no_input_validation:
  "(length samples \<le> 1 \<longrightarrow> t_test samples mu = (NaN, NaN))
   \<and> z_test x0 mu 0 = Inl ZeroDivisionError
   \<and> (sigma < 0 \<longrightarrow>
        z_test x0 mu sigma = Inr (\<bar>x0 - mu\<bar> / sigma, z_pvalue (\<bar>x0 - mu\<bar> / sigma))
        \<and> \<bar>x0 - mu\<bar> / sigma \<le> 0)"
  by (simp add: t_test_small z_test_def Z_score_def divide_nonneg_neg)

theorem no_input_validation_witness:
  "length [1035::real] \<le> 1 \<and> t_test [1035] 1060 = (NaN, NaN)
   \<and> z_test 1045 1060 0 = Inl ZeroDivisionError
   \<and> (- 3::real) < 0 \<and> z_test 1045 1060 (- 3) = Inr (- 5, z_pvalue (- 5))"
  using no_input_validation [of "[1035]" 1060 1045 "- 3"]
  by simp

subsection \<open>A sample mean equal to \<open>mu\<close>\<close>

text \<open>
  Claim C7, as stated, fails: for a sample of size \<open>n \<ge> 2\<close> whose values all equal \<open>mu\<close>
  the sample mean is \<open>mu\<close>, the standard deviation is zero, and the statistic and the
  p-value are NaN.
\<close>

theorem equal_samples_counterexample:
  "2 \<le> length [1060, 1060 :: real] \<and> sample_mean [1060, 1060] = Fin 1060
   \<and> t_test [1060, 1060] 1060 = (NaN, NaN)"
  by (simp add: sample_mean_def t_test_def T_statistic_def sample_sigma_def np_var_def
      np_mean_def np_sum_def np_sub_def t_pvalue_def t_cdf_def)

text \<open>
  Claim C7, amended. When the sample mean equals \<open>mu\<close>, the statistic is exactly 0 and the
  two-sided p-value exactly 1: for the Z test whenever \<open>sigma > 0\<close>, and for the t test
  whenever \<open>n \<ge> 2\<close> and the sample standard deviation is not zero, that is, the sample
  values are not all equal.
\<close>

theorem mean_equals_mu:
  "(0 < sigma \<longrightarrow> z_test mu mu sigma = Inr (0, 1))
   \<and> (2 \<le> length samples \<and> sample_mean samples = Fin mu \<and> sample_sigma samples \<noteq> Fin 0 \<longrightarrow>
        t_test samples mu = (Fin 0, Fin 1))"
proof (intro conjI impI)
  assume "0 < sigma"
  then show "z_test mu mu sigma = Inr (0, 1)"
    by (simp add: z_test_pos z_pvalue_def norm_cdf_zero)
next
  assume a: "2 \<le> length samples \<and> sample_mean samples = Fin mu \<and> sample_sigma samples \<noteq> Fin 0"
  then have n: "2 \<le> length samples" by simp
  then have ne: "samples \<noteq> []" by auto
  from a have "spec_mean samples = mu"
    by (simp add: sample_mean_def np_mean_Fin [OF ne])
  moreover from a have "spec_sd samples \<noteq> 0"
    by (simp add: sample_sigma_Fin [OF n])
  moreover have "sqrt (real (length samples)) \<noteq> 0"
    using ne by simp
  ultimately have "T_statistic samples mu = Fin 0"
    by (simp add: T_statistic_divide [OF n])
  then show "t_test samples mu = (Fin 0, Fin 1)"
    using t_test_Fin [OF n, of mu 0] by (simp add: student_t_cdf_zero)
qed

theorem mean_equals_mu_witness:
  "(0::real) < 3 \<and> z_test 1060 1060 3 = Inr (0, 1)
   \<and> 2 \<le> length [1059, 1061 :: real] \<and> sample_mean [1059, 1061] = Fin 1060
   \<and> sample_sigma [1059, 1061] \<noteq> Fin 0
   \<and> t_test [1059, 1061] 1060 = (Fin 0, Fin 1)"
proof -
  have m: "sample_mean [1059, 1061] = Fin 1060"
    by (simp add: sample_mean_def np_mean_def np_sum_def)
  have s: "sample_sigma [1059, 1061] \<noteq> Fin 0"
    by (simp add: sample_sigma_def np_var_def np_mean_def np_sum_def np_sub_def)
  show ?thesis
    using mean_equals_mu [where sigma = 3 and mu = 1060 and samples = "[1059, 1061]"] m s by simp
qed

subsection \<open>The t-test p-value\<close>

lemma two_samples_T: "a < b \<Longrightarrow> T_statistic [a, b] mu = Fin (((a + b) / 2 - mu) / ((b - a) / 2))"
proof -
  assume ab: "a < b"
  have "(a - (a + b) / 2)\<^sup>2 + (b - (a + b) / 2)\<^sup>2 = ((b - a) / sqrt 2)\<^sup>2"
    by (simp add: power2_eq_square field_simps)
  then have "spec_sd [a, b] = \<bar>(b - a) / sqrt 2\<bar>"
    by (simp only: spec_sd_two real_sqrt_abs)
  also have "\<dots> = (b - a) / sqrt 2"
    using ab by simp
  finally have sd: "spec_sd [a, b] = (b - a) / sqrt 2" .
  have "(b - a) / sqrt 2 / sqrt 2 = (b - a) / 2"
    by simp
  moreover have "(b - a) / 2 \<noteq> 0" using ab by simp
  ultimately show ?thesis
    using T_statistic_divide [of "[a, b]" mu] by (simp add: sd spec_mean_two)
qed

text \<open>
  Claim C1 says that every p-value lies in \<open>[0, 1]\<close>, in particular the t-test value
  \<open>F(T, n-1) + (1 - F(-T, n-1))\<close> for a positive statistic \<open>T\<close>. The t-test p-value cell
  breaks this: on the sample \<open>[1061, 1063]\<close> with \<open>mu = 1060\<close> the statistic is 2 and
  the p-value is \<open>1 + 2 arctan 2 / pi\<close>, more than 1. The Z cells take the absolute value of
  the deviation first; the t cells do not.
\<close>

theorem t_pvalue_exceeds_one:
  "2 \<le> length [1061, 1063 :: real]
   \<and> t_test [1061, 1063] 1060 = (Fin 2, Fin (1 + 2 * arctan 2 / pi))
   \<and> 1 < 1 + 2 * arctan 2 / pi"
proof -
  have "T_statistic [1061, 1063] 1060 = Fin 2"
    by (simp add: two_samples_T)
  then have "t_test [1061, 1063] 1060 = (Fin 2, Fin (1 + 2 * arctan 2 / pi))"
    using t_test_Fin [of "[1061, 1063]" 1060 2]
    by (simp add: student_t_cdf_Suc_0 arctan_minus)
  moreover have "0 < arctan 2 / pi"
    using arctan_2_gt pi_gt_zero by (intro divide_pos_pos) linarith+
  ultimately show ?thesis by simp
qed

text \<open>
  Claim C8 says that for a fixed number of degrees of freedom the p-value does not grow
  with the absolute value of the statistic. The t-test p-value cell breaks this for
  positive statistics: with \<open>n = 2\<close> the statistic 1 has p-value \<open>3/2\<close>, and the statistic 2
  has the larger p-value \<open>1 + 2 arctan 2 / pi\<close>.
\<close>

theorem t_pvalue_grows_with_statistic:
  "t_test [1060, 1062] 1060 = (Fin 1, Fin (3 / 2))
   \<and> t_test [1061, 1063] 1060 = (Fin 2, Fin (1 + 2 * arctan 2 / pi))
   \<and> \<bar>1 :: real\<bar> \<le> \<bar>2\<bar>
   \<and> 3 / 2 < 1 + 2 * arctan 2 / pi"
proof -
  have "T_statistic [1060, 1062] 1060 = Fin 1"
    by (simp add: two_samples_T)
  then have a: "t_test [1060, 1062] 1060 = (Fin 1, Fin (3 / 2))"
    using t_test_Fin [of "[1060, 1062]" 1060 1]
    by (simp add: student_t_cdf_Suc_0 arctan_minus arctan_one)
  have "T_statistic [1061, 1063] 1060 = Fin 2"
    by (simp add: two_samples_T)
  then have b: "t_test [1061, 1063] 1060 = (Fin 2, Fin (1 + 2 * arctan 2 / pi))"
    using t_test_Fin [of "[1061, 1063]" 1060 2]
    by (simp add: student_t_cdf_Suc_0 arctan_minus)
  have "1 / 4 < arctan 2 / pi"
    using arctan_2_gt pi_gt_zero by (simp add: field_simps)
  then have "3 / 2 < 1 + 2 * arctan 2 / pi" by simp
  with a b show ?thesis by simp
qed

text \<open>For the Z test the statistic is never negative, and there the p-value does fall.\<close>

lemma z_pvalue_antimono: "a \<le> b \<Longrightarrow> z_pvalue b \<le> z_pvalue a"
  using norm_cdf_strict_mono [of a b] by (cases "a = b") (simp_all add: z_pvalue_symmetric)

subsection \<open>The notebook's sample\<close>

lemma example_mean: "spec_mean samples_example = 5206 / 5"
  by (simp add: spec_mean_def samples_example_def)

lemma example_sd: "spec_sd samples_example = sqrt (1947 / 10)"
  by (simp add: spec_sd_def example_mean) (simp add: samples_example_def power2_eq_square)

lemma example_length: "length samples_example = 5"
  by (simp add: samples_example_def)

lemma example_T: "T_statistic samples_example 1060 = Fin (- (94 / 5) / sqrt (1947 / 50))"
proof -
  have "sqrt (1947 / 10) / sqrt 5 = sqrt (1947 / 10 / 5)"
    by (simp only: real_sqrt_divide)
  also have "\<dots> = sqrt (1947 / 50)" by simp
  finally have d: "spec_sd samples_example / sqrt (real (length samples_example)) = sqrt (1947 / 50)"
    by (simp only: example_sd example_length) simp
  have "0 < sqrt (1947 / 50 :: real)" by simp
  then have nz: "sqrt (1947 / 50 :: real) \<noteq> 0" by simp
  have "T_statistic samples_example 1060
          = np_divide (Fin (spec_mean samples_example - 1060))
                      (Fin (spec_sd samples_example / sqrt (real (length samples_example))))"
    by (rule T_statistic_divide) (simp add: example_length)
  also have "\<dots> = np_divide (Fin (5206 / 5 - 1060)) (Fin (sqrt (1947 / 50)))"
    by (simp only: d example_mean)
  also have "\<dots> = Fin ((5206 / 5 - 1060) / sqrt (1947 / 50))"
    using nz by simp
  also have "(5206 / 5 - 1060 :: real) = - (94 / 5)" by simp
  finally show ?thesis .
qed

lemma example_T_bounds:
  "- (302 / 100) < - (94 / 5) / sqrt (1947 / 50)" "- (94 / 5) / sqrt (1947 / 50) < - (301 / 100)"
proof -
  define r :: real where "r = sqrt (1947 / 50)"
  have lo: "94 / 5 / (302 / 100) < r"
    unfolding r_def by (rule real_less_rsqrt) (simp add: power2_eq_square)
  have hi: "r < 94 / 5 / (301 / 100)"
    unfolding r_def by (rule real_less_lsqrt) (simp_all add: power2_eq_square)
  have pos: "0 < r" unfolding r_def by simp
  from lo pos show "- (302 / 100) < - (94 / 5) / sqrt (1947 / 50)"
    unfolding r_def [symmetric] by (simp add: field_simps)
  from hi pos show "- (94 / 5) / sqrt (1947 / 50) < - (301 / 100)"
    unfolding r_def [symmetric] by (simp add: field_simps)
qed

lemma example_pvalue:
  "t_pvalue (Fin (- (94 / 5) / sqrt (1947 / 50))) 5 = Fin (1 - 689819 / 31825 / sqrt (2546 / 5))"
proof -
  define r :: real where "r = sqrt (1947 / 50)"
  define s :: real where "s = sqrt (25460 / 1947)"
  define T :: real where "T = - (94 / 5) / r"
  have r2: "r\<^sup>2 = 1947 / 50" unfolding r_def by simp
  have rpos: "0 < r" unfolding r_def by simp
  have spos: "0 < s" unfolding s_def by simp
  have "T\<^sup>2 = (94 / 5)\<^sup>2 / r\<^sup>2"
    unfolding T_def by (simp add: power_divide)
  also have "\<dots> = 17672 / 1947"
    unfolding r2 by (simp add: power2_eq_square)
  finally have T2: "T\<^sup>2 = 17672 / 1947" .
  have "r * s = sqrt (1947 / 50 * (25460 / 1947))"
    unfolding r_def s_def by (simp only: real_sqrt_mult)
  also have "(1947 / 50 * (25460 / 1947) :: real) = 2546 / 5" by simp
  finally have rs: "r * s = sqrt (2546 / 5)" .
  have "student_t_cdf 4 T = 1 / 2 + T * (T\<^sup>2 + 6) / (2 * (T\<^sup>2 + 4) * sqrt (T\<^sup>2 + 4))"
    by (rule student_t_cdf_4)
  also have "T\<^sup>2 + 6 = 29354 / 1947" unfolding T2 by simp
  also have "T\<^sup>2 + 4 = 25460 / 1947" unfolding T2 by simp
  finally have "student_t_cdf 4 T = 1 / 2 + T * (29354 / 1947) / (2 * (25460 / 1947) * s)"
    unfolding s_def .
  also have "T * (29354 / 1947) / (2 * (25460 / 1947) * s) = - (689819 / 31825 / (r * s)) / 2"
    unfolding T_def using rpos spos by (simp add: field_simps)
  finally have "2 * student_t_cdf 4 T = 1 - 689819 / 31825 / sqrt (2546 / 5)"
    unfolding rs by simp
  moreover have "t_pvalue (Fin T) 5 = Fin (2 * student_t_cdf 4 T)"
    using t_pvalue_Fin [of 5 T] by simp
  ultimately show ?thesis
    unfolding T_def r_def by simp
qed

lemma example_pvalue_bounds:
  "39 / 1000 < 1 - 689819 / 31825 / sqrt (2546 / 5)" "1 - 689819 / 31825 / sqrt (2546 / 5) < 40 / 1000"
proof -
  define q :: real where "q = sqrt (2546 / 5)"
  have lo: "2256 / 100 < q"
    unfolding q_def by (rule real_less_rsqrt) (simp add: power2_eq_square)
  have hi: "q < 2257 / 100"
    unfolding q_def by (rule real_less_lsqrt) (simp_all add: power2_eq_square)
  have pos: "0 < q" using lo by simp
  from lo pos show "39 / 1000 < 1 - 689819 / 31825 / sqrt (2546 / 5)"
    unfolding q_def [symmetric] by (simp add: field_simps)
  from hi pos show "1 - 689819 / 31825 / sqrt (2546 / 5) < 40 / 1000"
    unfolding q_def [symmetric] by (simp add: field_simps)
qed

lemma example_var: "np_var samples_example 1 = Fin (1947 / 10)"
proof -
  have "(\<Sum>i<length samples_example. (samples_example ! i - spec_mean samples_example)\<^sup>2)
          / (real (length samples_example) - 1) = 1947 / 10"
    by (simp add: example_mean) (simp add: samples_example_def power2_eq_square)
  then show ?thesis
    using np_var_Fin [of samples_example] by (simp add: example_length)
qed

lemma example_t_test:
  "t_test samples_example 1060 =
     (Fin (- (94 / 5) / sqrt (1947 / 50)), Fin (1 - 689819 / 31825 / sqrt (2546 / 5)))"
  using example_pvalue by (simp add: t_test_def example_T example_length)

text \<open>
  Claim C9, as stated, fails on the sample \<open>[1035, 1050, 1020, 1055, 1046]\<close> with
  \<open>mu = 1060\<close>: the statistic is below \<open>-3\<close>, not about \<open>-2.33\<close>, and the two-sided p-value is
  below \<open>0.05\<close>, not above.
\<close>

theorem example_t_test_counterexample:
  "t_test samples_example 1060 =
     (Fin (- (94 / 5) / sqrt (1947 / 50)), Fin (1 - 689819 / 31825 / sqrt (2546 / 5)))
   \<and> - (94 / 5) / sqrt (1947 / 50) < - 3
   \<and> 1 - 689819 / 31825 / sqrt (2546 / 5) < 5 / 100"
  using example_t_test example_T_bounds(2) example_pvalue_bounds(2) by simp

text \<open>
  Claim C9, amended. On the sample \<open>[1035, 1050, 1020, 1055, 1046]\<close> with \<open>mu = 1060\<close> the
  t cells yield \<open>n = 5\<close>, sample mean \<open>1041.2\<close>, the variance with denominator \<open>n - 1\<close>, which
  is \<open>194.7\<close>, and its square root as standard deviation, the statistic
  \<open>T = - 18.8 / sqrt 38.94\<close>, between \<open>-3.02\<close> and \<open>-3.01\<close>, and a two-sided p-value between
  \<open>0.039\<close> and \<open>0.040\<close>, which is less than \<open>0.05\<close>.
\<close>

theorem example_t_test_values:
  "length samples_example = 5
   \<and> sample_mean samples_example = Fin (10412 / 10)
   \<and> np_var samples_example 1 = Fin (1947 / 10)
   \<and> sample_sigma samples_example = Fin (sqrt (1947 / 10))
   \<and> t_test samples_example 1060 =
       (Fin (- (94 / 5) / sqrt (1947 / 50)), Fin (1 - 689819 / 31825 / sqrt (2546 / 5)))
   \<and> - (302 / 100) < - (94 / 5) / sqrt (1947 / 50)
   \<and> - (94 / 5) / sqrt (1947 / 50) < - (301 / 100)
   \<and> 39 / 1000 < 1 - 689819 / 31825 / sqrt (2546 / 5)
   \<and> 1 - 689819 / 31825 / sqrt (2546 / 5) < 40 / 1000"
proof -
  have "sample_mean samples_example = Fin (10412 / 10)"
    by (simp add: sample_mean_def np_mean_def np_sum_def samples_example_def)
  moreover have "sample_sigma samples_example = Fin (sqrt (1947 / 10))"
    by (simp add: sample_sigma_def example_var)
  ultimately show ?thesis
    using example_length example_var example_t_test example_T_bounds example_pvalue_bounds
    by simp
qed

end
